theory Spec2Isabelle
  imports Complex_Main
begin

section \<open>Data model\<close>

text \<open>
  Numbers are Python floats and ints; they are embedded as exact reals, so rounding is
  not part of this development. Counts (\<open>number\<close>, \<open>length\<close>, seeds) are naturals.

  A numpy array is a scalar (0-d), a vector (1-d) or a matrix (2-d). A matrix of shape
  \<open>(L, N)\<close> is kept as the list of its \<open>N\<close> columns, which is what iterating over
  \<open>a.T\<close> yields.
\<close>

datatype ndarray = Scalar real | Vec "real list" | Mat "real list list"

datatype message =
    Two_parameters_needed
  | One_parameter_needed nat
  | Unknown_method "string option" "string set"
  | Expected_Series string
  | Phaseran_requires_even_spacing
  | Time_not_in_settings
  | Unknown_time_pattern string
  | Phaseran_only_in_from_series
  | NoneType_not_iterable
  | No_attribute string
  | Unbound_local string
  | Iteration_over_0d_array
  | Could_not_broadcast
  | Lat_not_passed
  | Lon_not_passed
  | List_index_out_of_range

datatype error =
    ValueError message
  | TypeError message
  | AttributeError message
  | UnboundLocalError message
  | IndexError message

datatype warning = Phaseran_parameters_ignored | AR1_defaults_used nat

text \<open>The single-series entity (class \<open>Series\<close>): the attributes the code reads and writes.\<close>

record Series =
  s_time :: "real list"
  s_value :: ndarray
  s_label :: "string option"
  s_auto_time_params :: bool

text \<open>
  A \<open>SurrogateSeries\<close> object. \<open>label\<close> is \<open>None\<close> while the attribute has not been
  assigned (reading it then raises AttributeError); \<open>method_name\<close> is the attribute
  \<open>method\<close>, a string or Python's None.
\<close>

record SurrogateSeries =
  series_list :: "Series list"
  method_name :: "string option"
  param :: "real list option"
  number :: nat
  seed :: "nat option"
  label :: "string option"

text \<open>What \<open>from_series\<close> may be handed: a Series, or an object of another type.\<close>

datatype pyobj = Series_obj Series | Other_obj string

text \<open>The \<open>settings\<close> dictionary of \<open>from_param\<close>, by its four recognised keys.\<close>

record settings =
  st_delta_t :: "real option"
  st_delta_t_dist :: "string option"
  st_param :: "real list option"
  st_time :: "real list option"

definition no_settings :: settings where
  "no_settings = \<lparr>st_delta_t = None, st_delta_t_dist = None, st_param = None, st_time = None\<rparr>"

text \<open>
  The numerical routines live in \<open>utils.tsmodel\<close>, \<open>utils.tsutils\<close>, \<open>Series\<close> and numpy,
  outside the three files verified here. They are parameters of the model. Those that
  draw random numbers read and advance the process-wide generator state \<open>'g\<close>.
  \<open>random_seed\<close> is \<open>np.random.seed\<close> (the state it installs); \<open>default_rng\<close> is
  \<open>np.random.default_rng\<close>, which builds a new generator object and leaves the
  process-wide one alone; \<open>empty_like\<close> is \<open>np.empty_like\<close>.
\<close>

record 'g tsmodel =
  ar1_sim :: "ndarray \<Rightarrow> nat \<Rightarrow> real list \<Rightarrow> 'g \<Rightarrow> ndarray \<times> 'g"
  uar1_fit :: "ndarray \<Rightarrow> real list \<Rightarrow> real \<times> real"
  uar1_sim :: "ndarray \<Rightarrow> real \<Rightarrow> real \<Rightarrow> 'g \<Rightarrow> ndarray \<times> 'g"
  phaseran2 :: "ndarray \<Rightarrow> nat \<Rightarrow> 'g \<Rightarrow> ndarray \<times> 'g"
  random_time_index :: "nat \<Rightarrow> string \<Rightarrow> real list \<Rightarrow> 'g \<Rightarrow> real list \<times> 'g"
  is_evenly_spaced :: "Series \<Rightarrow> bool"
  random_seed :: "nat \<Rightarrow> 'g"
  default_rng :: "nat \<Rightarrow> 'g"
  empty_like :: "ndarray \<Rightarrow> ndarray"

text \<open>
  The state a method call runs in: the object, the process-wide generator and the
  warnings emitted so far. A call returns \<open>Inr ()\<close> or raises (\<open>Inl\<close>), together with
  the state it leaves behind.
\<close>

record 'g state =
  self :: SurrogateSeries
  rng :: 'g
  warnings :: "warning list"

section \<open>Python and numpy helpers\<close>

definition supported_surrogates :: "string set" where
  "supported_surrogates = {''ar1sim'', ''phaseran'', ''uar1''}"

text \<open>\<open>sub in s\<close> on strings.\<close>

fun is_prefix :: "string \<Rightarrow> string \<Rightarrow> bool" where
  "is_prefix [] s = True"
| "is_prefix (c # cs) [] = False"
| "is_prefix (c # cs) (d # ds) = (c = d \<and> is_prefix cs ds)"

fun str_in :: "string \<Rightarrow> string \<Rightarrow> bool" where
  "str_in sub [] = (sub = [])"
| "str_in sub (c # cs) = (is_prefix sub (c # cs) \<or> str_in sub cs)"

text \<open>\<open>str(n)\<close> for a non-negative integer.\<close>

definition digit :: "nat \<Rightarrow> char" where
  "digit d = ''0123456789'' ! d"

function str_nat :: "nat \<Rightarrow> string" where
  "str_nat n = (if n < 10 then [digit n] else str_nat (n div 10) @ [digit (n mod 10)])"
  by pat_completeness auto
termination
  by (relation "measure id") auto

declare str_nat.simps [simp del]

text \<open>\<open>str(x or '')\<close> for an attribute that is a string or None.\<close>

definition str_or_empty :: "string option \<Rightarrow> string" where
  "str_or_empty l = (case l of None \<Rightarrow> [] | Some s \<Rightarrow> s)"

text \<open>\<open>np.cumsum\<close> on a list.\<close>

fun cumsum_from :: "real \<Rightarrow> real list \<Rightarrow> real list" where
  "cumsum_from a [] = []"
| "cumsum_from a (x # xs) = (a + x) # cumsum_from (a + x) xs"

definition cumsum :: "real list \<Rightarrow> real list" where
  "cumsum xs = cumsum_from 0 xs"

text \<open>
  Iterating over \<open>a.T\<close>: the columns of a matrix; the entries of a vector (its transpose
  is itself); a 0-d array cannot be iterated.
\<close>

fun iter_T :: "ndarray \<Rightarrow> error + ndarray list" where
  "iter_T (Mat cols) = Inr (map Vec cols)"
| "iter_T (Vec xs) = Inr (map Scalar xs)"
| "iter_T (Scalar x) = Inl (TypeError Iteration_over_0d_array)"

text \<open>\<open>np.squeeze\<close> of a matrix of shape \<open>(L, N)\<close> given by its \<open>N\<close> columns: axes of length 1 go.\<close>

definition squeeze :: "nat \<Rightarrow> real list list \<Rightarrow> ndarray" where
  "squeeze L cols =
     (if L = 1 \<and> length cols = 1 then Scalar (hd (hd cols))
      else if length cols = 1 then Vec (hd cols)
      else if L = 1 then Vec (map hd cols)
      else Mat cols)"

text \<open>
  \<open>times[:, i] = v\<close> on a matrix with \<open>L\<close> rows: \<open>v\<close> has \<open>L\<close> entries, or one entry that
  is broadcast; anything else is refused by numpy.
\<close>

definition assign_column :: "nat \<Rightarrow> real list \<Rightarrow> error + real list" where
  "assign_column L v =
     (if length v = L then Inr v
      else if length v = 1 then Inr (replicate L (hd v))
      else Inl (ValueError Could_not_broadcast))"

section \<open>SurrogateSeries\<close>

subsection \<open>The constructor\<close>

definition SurrogateSeries_init ::
  "Series list \<Rightarrow> nat \<Rightarrow> string option \<Rightarrow> string option \<Rightarrow> real list option \<Rightarrow> nat option
     \<Rightarrow> error + (SurrogateSeries \<times> warning list)" where
  "SurrogateSeries_init series_list0 number0 method0 label0 param0 seed0 =
     (let obj = \<lparr>series_list = series_list0, method_name = method0, param = param0,
                 number = number0, seed = seed0, label = None\<rparr>;
          checked =
            (case param0 of
               None \<Rightarrow> Inr []
             | Some p \<Rightarrow>
                 (let nparam = length p in
                  case method0 of
                    None \<Rightarrow> Inl (TypeError NoneType_not_iterable)
                  | Some m \<Rightarrow>
                      if str_in ''ar1'' m \<and> nparam \<noteq> 2 then Inl (ValueError Two_parameters_needed)
                      else if m = ''phaseran'' then Inr [Phaseran_parameters_ignored]
                      else if m \<in> set [''fBm'', ''CN''] \<and> nparam > 1
                        then Inl (ValueError (One_parameter_needed nparam))
                      else Inr []))
      in case checked of
           Inl e \<Rightarrow> Inl e
         | Inr ws \<Rightarrow>
             (case label0 of
                Some l \<Rightarrow> Inr (obj, ws)
              | None \<Rightarrow>
                  if method0 = Some ''ar1sim''
                    then Inr (obj\<lparr>label := Some ''AR(1) surrogates (MoM)''\<rparr>, ws)
                  else if method0 = Some ''phaseran''
                    then Inr (obj\<lparr>label := Some ''phase-randomized surrogates''\<rparr>, ws)
                  else if method0 = Some ''uar1''
                    then Inr (obj\<lparr>label := Some ''AR(1) surrogates (MLE)''\<rparr>, ws)
                  else Inl (ValueError (Unknown_method method0 supported_surrogates))))"

subsection \<open>from_series\<close>

text \<open>
  The method dispatch of \<open>from_series\<close>. The \<open>uar1\<close> branch stores the fitted pair in
  \<open>self.param\<close>. When no branch applies, \<open>y_surr\<close> is never bound and its first use
  raises.
\<close>

definition surrogate_values ::
  "'g tsmodel \<Rightarrow> Series \<Rightarrow> 'g state \<Rightarrow> (error + ndarray) \<times> 'g state" where
  "surrogate_values lib target_series w =
     (let obj = self w in
      if method_name obj = Some ''ar1sim'' then
        (let (y_surr, g) = ar1_sim lib (s_value target_series) (number obj) (s_time target_series) (rng w)
         in (Inr y_surr, w\<lparr>rng := g\<rparr>))
      else if method_name obj = Some ''phaseran'' then
        (if is_evenly_spaced lib target_series then
           (let (y_surr, g) = phaseran2 lib (s_value target_series) (number obj) (rng w)
            in (Inr y_surr, w\<lparr>rng := g\<rparr>))
         else (Inl (ValueError Phaseran_requires_even_spacing), w))
      else if method_name obj = Some ''uar1'' then
        (let (tau, sigma_2) = uar1_fit lib (s_value target_series) (s_time target_series);
             w1 = w\<lparr>self := obj\<lparr>param := Some [tau, sigma_2]\<rparr>\<rparr>;
             time_matrix = squeeze (length (s_time target_series))
                             (replicate (number obj) (s_time target_series));
             (y_surr, g) = uar1_sim lib time_matrix tau sigma_2 (rng w1)
         in (Inr y_surr, w1\<lparr>rng := g\<rparr>))
      else (Inl (UnboundLocalError (Unbound_local ''y_surr'')), w))"

definition from_series :: "'g tsmodel \<Rightarrow> pyobj \<Rightarrow> 'g state \<Rightarrow> (error + unit) \<times> 'g state" where
  "from_series lib target w =
     (case target of
        Other_obj ty \<Rightarrow> (Inl (TypeError (Expected_Series ty)), w)
      | Series_obj target_series \<Rightarrow>
          (let discarded_generator = map_option (default_rng lib) (seed (self w)) in
           case surrogate_values lib target_series w of
             (Inl e, w1) \<Rightarrow> (Inl e, w1)
           | (Inr y_surr, w1) \<Rightarrow>
               if number (self w1) > 1 then
                 (case iter_T y_surr of
                    Inl e \<Rightarrow> (Inl e, w1)
                  | Inr ys \<Rightarrow>
                      (Inr (),
                       w1\<lparr>self := (self w1)\<lparr>series_list :=
                         map (\<lambda>(i, y). target_series\<lparr>s_value := y,
                                s_label := Some (str_or_empty (s_label target_series)
                                                  @ '' surr #'' @ str_nat (i + 1))\<rparr>)
                             (enumerate 0 ys)\<rparr>\<rparr>))
               else
                 (Inr (),
                  w1\<lparr>self := (self w1)\<lparr>series_list :=
                    [target_series\<lparr>s_value := y_surr,
                       s_label := Some (str_or_empty (s_label target_series) @ '' surr'')\<rparr>]\<rparr>\<rparr>)))"

subsection \<open>from_param\<close>

text \<open>The loop of the \<open>random\<close> time pattern: one draw per realization, in order.\<close>

fun random_axes ::
  "'g tsmodel \<Rightarrow> nat \<Rightarrow> string \<Rightarrow> real list \<Rightarrow> nat \<Rightarrow> 'g \<Rightarrow> (error + real list list) \<times> 'g" where
  "random_axes lib len dist_name dist_param 0 g = (Inr [], g)"
| "random_axes lib len dist_name dist_param (Suc k) g =
     (let (v, g1) = random_time_index lib len dist_name dist_param g in
      case assign_column len v of
        Inl e \<Rightarrow> (Inl e, g1)
      | Inr c \<Rightarrow>
          (case random_axes lib len dist_name dist_param k g1 of
             (Inl e, g2) \<Rightarrow> (Inl e, g2)
           | (Inr cs, g2) \<Rightarrow> (Inr (c # cs), g2)))"

text \<open>The time matrix, by its columns.\<close>

definition time_axes ::
  "'g tsmodel \<Rightarrow> nat \<Rightarrow> nat \<Rightarrow> string \<Rightarrow> settings \<Rightarrow> 'g \<Rightarrow> (error + real list list) \<times> 'g" where
  "time_axes lib len n time_pattern st g =
     (if time_pattern = ''even'' then
        (let delta_t = (case st_delta_t st of Some d \<Rightarrow> d | None \<Rightarrow> 1.0);
             t = cumsum (replicate len delta_t)
         in (Inr (replicate n t), g))
      else if time_pattern = ''random'' then
        (let dist_name = (case st_delta_t_dist st of Some d \<Rightarrow> d | None \<Rightarrow> ''exponential'');
             dist_param = (case st_param st of Some p \<Rightarrow> p | None \<Rightarrow> [1])
         in random_axes lib len dist_name dist_param n g)
      else if time_pattern = ''specified'' then
        (case st_time st of
           None \<Rightarrow> (Inl (ValueError Time_not_in_settings), g)
         | Some t \<Rightarrow> (Inr (replicate n t), g))
      else (Inl (ValueError (Unknown_time_pattern time_pattern)), g))"

text \<open>The method dispatch of \<open>from_param\<close>; \<open>y0\<close> is the array \<open>np.empty_like(times)\<close>.\<close>

definition param_values ::
  "'g tsmodel \<Rightarrow> real list \<Rightarrow> ndarray \<Rightarrow> ndarray \<Rightarrow> 'g state \<Rightarrow> (error + ndarray) \<times> 'g state" where
  "param_values lib p time_matrix y0 w =
     (let nparam = length p in
      if method_name (self w) \<in> set [Some ''uar1'', Some ''ar1sim''] then
        (let (p1, w1) =
               (if nparam < 2
                  then ([5, 0.5], w\<lparr>warnings := warnings w @ [AR1_defaults_used nparam]\<rparr>)
                  else (p, w));
             (y_surr, g) = uar1_sim lib time_matrix (p1 ! 0) (p1 ! 1) (rng w1)
         in (Inr y_surr, w1\<lparr>rng := g\<rparr>))
      else if method_name (self w) = Some ''phaseran'' then
        (Inl (ValueError Phaseran_only_in_from_series), w)
      else (Inr y0, w))"

text \<open>
  The last block of \<open>from_param\<close>: one Series per pair of a time column and a value
  column. \<open>self.label\<close> is read in the loop body, so a missing attribute raises only when
  the loop runs at all; \<open>series_list\<close> is assigned after the loop.
\<close>

definition create_series_list ::
  "real list list \<Rightarrow> ndarray \<Rightarrow> 'g state \<Rightarrow> (error + unit) \<times> 'g state" where
  "create_series_list cols y_surr w =
     (case iter_T y_surr of
        Inl e \<Rightarrow> (Inl e, w)
      | Inr ys \<Rightarrow>
          (case zip cols ys of
             [] \<Rightarrow> (Inr (), w\<lparr>self := (self w)\<lparr>series_list := []\<rparr>\<rparr>)
           | pair # pairs \<Rightarrow>
               (case label (self w) of
                  None \<Rightarrow> (Inl (AttributeError (No_attribute ''label'')), w)
                | Some l \<Rightarrow>
                    (Inr (),
                     w\<lparr>self := (self w)\<lparr>series_list :=
                       map (\<lambda>(i, (t, y)).
                              \<lparr>s_time = t, s_value = y,
                               s_label = Some (str_or_empty (Some l) @ '' surr #''
                                                @ str_nat (i + 1)),
                               s_auto_time_params = True\<rparr>)
                           (enumerate 0 (pair # pairs))\<rparr>\<rparr>))))"

text \<open>\<open>if self.seed is not None: np.random.seed(self.seed)\<close>.\<close>

definition seed_generator :: "'g tsmodel \<Rightarrow> 'g state \<Rightarrow> 'g state" where
  "seed_generator lib w =
     (case seed (self w) of None \<Rightarrow> w | Some sd \<Rightarrow> w\<lparr>rng := random_seed lib sd\<rparr>)"

definition from_param ::
  "'g tsmodel \<Rightarrow> real list option \<Rightarrow> nat \<Rightarrow> string \<Rightarrow> settings option \<Rightarrow> 'g state
     \<Rightarrow> (error + unit) \<times> 'g state" where
  "from_param lib param0 len time_pattern settings0 w =
     (let p = (case param0 of Some q \<Rightarrow> q | None \<Rightarrow> []);
          st = (case settings0 of None \<Rightarrow> no_settings | Some s \<Rightarrow> s);
          w1 = seed_generator lib w
      in case time_axes lib len (number (self w1)) time_pattern st (rng w1) of
           (Inl e, g) \<Rightarrow> (Inl e, w1\<lparr>rng := g\<rparr>)
         | (Inr cols, g) \<Rightarrow>
             (case param_values lib p (Mat cols) (empty_like lib (Mat cols)) (w1\<lparr>rng := g\<rparr>) of
                (Inl e, w2) \<Rightarrow> (Inl e, w2)
              | (Inr y_surr, w2) \<Rightarrow> create_series_list cols y_surr w2))"

section \<open>EnsembleGeoSeries\<close>

text \<open>A member of the series list: a plain Series, or a GeoSeries with its \<open>lat\<close> and \<open>lon\<close>.\<close>

datatype member = Series_member Series | GeoSeries_member Series real real

fun is_GeoSeries :: "member \<Rightarrow> bool" where
  "is_GeoSeries (GeoSeries_member s la lo) = True"
| "is_GeoSeries (Series_member s) = False"

fun member_lat :: "member \<Rightarrow> error + real" where
  "member_lat (GeoSeries_member s la lo) = Inr la"
| "member_lat (Series_member s) = Inl (AttributeError (No_attribute ''lat''))"

fun member_lon :: "member \<Rightarrow> error + real" where
  "member_lon (GeoSeries_member s la lo) = Inr lo"
| "member_lon (Series_member s) = Inl (AttributeError (No_attribute ''lon''))"

text \<open>
  The object; \<open>lat\<close> and \<open>lon\<close> are \<open>None\<close> while the attribute has not been assigned.
\<close>

record EnsembleGeoSeries =
  members :: "member list"
  lat :: "real option"
  lon :: "real option"
  elevation :: "real option"
  archiveType :: "string option"
  control_archiveType :: bool
  sensorType :: "string option"
  observationType :: "string option"
  depth :: "real list option"
  depth_name :: "string option"
  depth_unit :: "string option"

definition EnsembleGeoSeries_init ::
  "member list \<Rightarrow> real option \<Rightarrow> real option \<Rightarrow> real option \<Rightarrow> string option \<Rightarrow> bool
     \<Rightarrow> string option \<Rightarrow> string option \<Rightarrow> real list option \<Rightarrow> string option \<Rightarrow> string option
     \<Rightarrow> error + EnsembleGeoSeries" where
  "EnsembleGeoSeries_init sl lat0 lon0 elevation0 archiveType0 control_archiveType0
       sensorType0 observationType0 depth0 depth_name0 depth_unit0 =
     (let obj = \<lparr>members = sl, lat = None, lon = None, elevation = elevation0,
                 archiveType = archiveType0, control_archiveType = control_archiveType0,
                 sensorType = sensorType0, observationType = observationType0,
                 depth = depth0, depth_name = depth_name0, depth_unit = depth_unit0\<rparr>
      in case lat0 of
           None \<Rightarrow>
             (if \<not> list_all is_GeoSeries sl then Inl (ValueError Lat_not_passed)
              else (case sl of
                      [] \<Rightarrow> Inl (IndexError List_index_out_of_range)
                    | m # ms \<Rightarrow>
                        (case member_lat m of
                           Inl e \<Rightarrow> Inl e
                         | Inr la \<Rightarrow> Inr (obj\<lparr>lat := Some la\<rparr>))))
         | Some la0 \<Rightarrow>
             (case lon0 of
                None \<Rightarrow>
                  (if \<not> list_all is_GeoSeries sl then Inl (ValueError Lon_not_passed)
                   else (case sl of
                           [] \<Rightarrow> Inl (IndexError List_index_out_of_range)
                         | m # ms \<Rightarrow>
                             (case member_lon m of
                                Inl e \<Rightarrow> Inl e
                              | Inr lo \<Rightarrow> Inr (obj\<lparr>lon := Some lo\<rparr>))))
              | Some lo0 \<Rightarrow>
                  (let obj1 = (if -90 \<le> la0 \<and> la0 \<le> 90 then obj\<lparr>lat := Some la0\<rparr> else obj);
                       obj2 = (if -180 < lo0 \<and> lo0 \<le> 360 then obj1\<lparr>lon := Some lo0\<rparr> else obj1)
                   in Inr obj2)))"


section \<open>Array shapes and a small library instance\<close>

text \<open>A matrix of shape \<open>(L, N)\<close>.\<close>

fun is_matrix :: "nat \<Rightarrow> nat \<Rightarrow> ndarray \<Rightarrow> bool" where
  "is_matrix L N (Mat cols) = (length cols = N \<and> list_all (\<lambda>c. length c = L) cols)"
| "is_matrix L N (Vec v) = False"
| "is_matrix L N (Scalar x) = False"

text \<open>What a sampling routine handed back is a matrix of shape \<open>(L, N)\<close>.\<close>

definition returns_matrix :: "nat \<Rightarrow> nat \<Rightarrow> error + ndarray \<Rightarrow> bool" where
  "returns_matrix L N r = (case r of Inl e \<Rightarrow> False | Inr y \<Rightarrow> is_matrix L N y)"

text \<open>
  A deterministic instance of the numerical library, used to run the model on concrete
  inputs. The generator state is a counter: every draw shifts its output by the counter
  and advances it; seeding sets the counter to the seed.
\<close>

definition counter_lib :: "nat tsmodel" where
  "counter_lib =
     \<lparr>ar1_sim = (\<lambda>y n t g. (Mat (replicate n (map (\<lambda>x. x + real g) t)), Suc g)),
      uar1_fit = (\<lambda>y t. (2, 1)),
      uar1_sim = (\<lambda>t tau sigma_2 g.
         (case t of
            Mat cols \<Rightarrow> Mat (map (map (\<lambda>x. tau * x + sigma_2 + real g)) cols)
          | Vec v \<Rightarrow> Vec (map (\<lambda>x. tau * x + sigma_2 + real g) v)
          | Scalar x \<Rightarrow> Scalar (tau * x + sigma_2 + real g), Suc g)),
      phaseran2 = (\<lambda>y n g.
         (Mat (replicate n (case y of Vec v \<Rightarrow> map (\<lambda>x. x + real g) (rev v) | _ \<Rightarrow> [])), Suc g)),
      random_time_index = (\<lambda>len dist_name dist_param g.
         (cumsum (replicate len (real (Suc g))), Suc g)),
      is_evenly_spaced = (\<lambda>s. True),
      random_seed = (\<lambda>sd. sd),
      default_rng = (\<lambda>sd. sd),
      empty_like = (\<lambda>a. a)\<rparr>"

text \<open>Inputs for the examples: a target series, a builder as the constructor leaves it
  (with a label assigned), and the state a call starts in.\<close>

definition soi :: Series where
  "soi = \<lparr>s_time = [1, 2, 4], s_value = Vec [10, 20, 30], s_label = Some ''SOI'',
          s_auto_time_params = False\<rparr>"

definition builder :: "string \<Rightarrow> nat \<Rightarrow> nat option \<Rightarrow> SurrogateSeries" where
  "builder m n sd =
     \<lparr>series_list = [], method_name = Some m, param = None, number = n, seed = sd,
      label = Some ''surrogates''\<rparr>"

definition start :: "SurrogateSeries \<Rightarrow> nat \<Rightarrow> nat state" where
  "start obj g = \<lparr>self = obj, rng = g, warnings = []\<rparr>"

section \<open>Auxiliary facts\<close>

lemmas ex_defs = builder_def start_def soi_def counter_lib_def no_settings_def

lemmas fp_defs = from_param_def seed_generator_def time_axes_def param_values_def
  create_series_list_def cumsum_def

lemmas fs_defs = from_series_def surrogate_values_def squeeze_def



lemma random_axes_error:
  "random_axes lib len dn dp n g = (Inl e, g') \<Longrightarrow> e = ValueError Could_not_broadcast"
proof (induction n arbitrary: g g')
  case 0
  then show ?case by simp
next
  case (Suc n)
  then show ?case
    by (auto simp: assign_column_def split: prod.splits sum.splits if_splits)
qed

lemma time_axes_error:
  "time_axes lib len n tp st g = (Inl e, g') \<Longrightarrow> \<exists>m. e = ValueError m"
  by (auto simp: time_axes_def Let_def split: if_splits option.splits dest: random_axes_error)

lemma seed_generator_self [simp]: "self (seed_generator lib w) = self w"
  by (simp add: seed_generator_def split: option.splits)

lemma seed_generator_warnings [simp]: "warnings (seed_generator lib w) = warnings w"
  by (simp add: seed_generator_def split: option.splits)

lemma param_values_self: "self (snd (param_values lib p tm y0 w)) = self w"
  by (simp add: param_values_def Let_def split: prod.splits)



lemma create_series_list_warnings: "warnings (snd (create_series_list cols y w)) = warnings w"
  by (simp add: create_series_list_def split: sum.splits list.splits option.splits)






lemma surrogate_values_number:
  "number (self (snd (surrogate_values lib ts w))) = number (self w)"
  by (simp add: surrogate_values_def Let_def split: prod.splits)

lemma labels_enumerate:
  "map s_label (map (\<lambda>(i, y). t\<lparr>s_value := y, s_label := Some (pre @ str_nat (i + 1))\<rparr>)
                    (enumerate n ys))
     = map (\<lambda>i. Some (pre @ str_nat i)) [Suc n..<Suc (n + length ys)]"
proof (induction ys arbitrary: n)
  case Nil
  show ?case by simp
next
  case (Cons y ys)
  have "[Suc n..<Suc (n + length (y # ys))] = Suc n # [Suc (Suc n)..<Suc (Suc n + length ys)]"
    by (simp add: upt_conv_Cons del: upt_Suc)
  with Cons.IH [of "Suc n"] show ?case
    by (simp del: upt_Suc)
qed

lemma is_matrix_cases:
  assumes "is_matrix L N y"
  obtains cs where "y = Mat cs" and "length cs = N" and "\<forall>c \<in> set cs. length c = L"
  using assms by (cases y) (auto simp: list_all_iff)

section \<open>EnsembleGeoSeries: the constructor\<close>

text \<open>
  In-range coordinates are stored: with explicit \<open>lat\<close> in \<open>[-90, 90]\<close> and \<open>lon\<close> in
  \<open>(-180, 360]\<close> the object carries both.
\<close>

lemma EnsembleGeoSeries_init_in_range:
  "-90 \<le> la \<Longrightarrow> la \<le> 90 \<Longrightarrow> -180 < lo \<Longrightarrow> lo \<le> 360 \<Longrightarrow>
   \<exists>obj. EnsembleGeoSeries_init sl (Some la) (Some lo) e a c s ob d dn du = Inr obj
         \<and> lat obj = Some la \<and> lon obj = Some lo"
  by (simp add: EnsembleGeoSeries_init_def)

text \<open>
  C1. The claim asks that an explicit \<open>lat\<close> outside \<open>[-90, 90]\<close> (or \<open>lon\<close> outside
  \<open>(-180, 360]\<close>) makes the constructor fail. The code builds the ValueError in the
  \<open>else\<close> branch without raising it: with \<open>lat = 100\<close> and \<open>lon = 0\<close> the constructor
  returns an object whose \<open>lat\<close> was never assigned and whose \<open>lon\<close> is 0.
\<close>

theorem EnsembleGeoSeries_init_lat_out_of_range_accepted:
  "EnsembleGeoSeries_init [] (Some 100) (Some 0) None None False None None None None None
     = Inr \<lparr>members = [], lat = None, lon = Some 0, elevation = None, archiveType = None,
            control_archiveType = False, sensorType = None, observationType = None,
            depth = None, depth_name = None, depth_unit = None\<rparr>"
  by (simp add: EnsembleGeoSeries_init_def)

text \<open>
  C10. With \<open>lat\<close> omitted and a non-empty list of GeoSeries members, the object gets
  the first member's \<open>lat\<close> and no \<open>lon\<close>, whatever \<open>lon\<close> was passed; with \<open>lat\<close> passed
  and \<open>lon\<close> omitted it gets the first member's \<open>lon\<close> and no \<open>lat\<close>: the passed \<open>lat\<close> is
  not stored.
\<close>

theorem EnsembleGeoSeries_init_omitted_coordinate:
  assumes "sl = GeoSeries_member s la lo # ms" and "list_all is_GeoSeries ms"
  shows "(\<exists>obj. EnsembleGeoSeries_init sl None lon0 e a c sn ob d dn du = Inr obj
             \<and> lat obj = Some la \<and> lon obj = None)
       \<and> (\<exists>obj. EnsembleGeoSeries_init sl (Some la0) None e a c sn ob d dn du = Inr obj
             \<and> lon obj = Some lo \<and> lat obj = None)"
  using assms by (simp add: EnsembleGeoSeries_init_def)

theorem EnsembleGeoSeries_init_omitted_coordinate_witness:
  "(\<exists>obj. EnsembleGeoSeries_init [GeoSeries_member soi 10 20, GeoSeries_member soi 30 40]
            None (Some 5) None None False None None None None None = Inr obj
         \<and> lat obj = Some 10 \<and> lon obj = None)
   \<and> (\<exists>obj. EnsembleGeoSeries_init [GeoSeries_member soi 10 20, GeoSeries_member soi 30 40]
            (Some 7) None None None False None None None None None = Inr obj
         \<and> lon obj = Some 20 \<and> lat obj = None)"
proof -
  have rest: "list_all is_GeoSeries [GeoSeries_member soi 30 40]" by simp
  from EnsembleGeoSeries_init_omitted_coordinate [OF refl rest] show ?thesis by blast
qed

section \<open>SurrogateSeries: the constructor\<close>

text \<open>
  Without a label, an unknown method is refused with the error that carries the supported
  set: this is the only place the method name is checked.
\<close>

lemma SurrogateSeries_init_unknown_method_no_label:
  assumes "m \<notin> {Some ''ar1sim'', Some ''phaseran'', Some ''uar1''}"
  shows "SurrogateSeries_init sl n m None None sd
           = Inl (ValueError (Unknown_method m supported_surrogates))"
  using assms by (simp add: SurrogateSeries_init_def)

text \<open>
  C3. The claim asks that every construction with a method outside
  \<open>{ar1sim, phaseran, uar1}\<close> raises. The check sits inside the branch that derives a
  default label: when a label is passed, the method \<open>bogus\<close> is accepted, no error is
  raised and the object is left without a \<open>label\<close> attribute.
\<close>

theorem SurrogateSeries_init_unknown_method_accepted:
  "SurrogateSeries_init [] 1 (Some ''bogus'') (Some ''my label'') None None
     = Inr (\<lparr>series_list = [], method_name = Some ''bogus'', param = None, number = 1,
             seed = None, label = None\<rparr>, [])"
  by (simp add: SurrogateSeries_init_def)

text \<open>
  C4. The claim asks that a single-parameter method (\<open>fBm\<close>, \<open>CN\<close>) with more than one
  parameter is constructed after a warning. The code raises ValueError instead of
  warning, although its message announces that the first parameter will be used.
\<close>

theorem SurrogateSeries_init_single_parameter_raises:
  "SurrogateSeries_init [] 1 (Some ''fBm'') (Some ''x'') (Some [1, 2]) None
     = Inl (ValueError (One_parameter_needed 2))"
  by (simp add: SurrogateSeries_init_def)

section \<open>from_param\<close>

text \<open>
  C8. With method \<open>phaseran\<close>, \<open>from_param\<close> raises a ValueError whatever \<open>param\<close>,
  \<open>length\<close>, \<open>time_pattern\<close> and \<open>settings\<close> are, and leaves the object (so its
  \<open>series_list\<close>) as it was.
\<close>

theorem from_param_phaseran_raises:
  assumes "method_name (self w) = Some ''phaseran''"
  shows "\<exists>m. fst (from_param lib param0 len time_pattern settings0 w) = Inl (ValueError m)
           \<and> self (snd (from_param lib param0 len time_pattern settings0 w)) = self w"
proof -
  let ?w1 = "seed_generator lib w"
  let ?st = "case settings0 of None \<Rightarrow> no_settings | Some s \<Rightarrow> s"
  show ?thesis
  proof (cases "time_axes lib len (number (self w)) time_pattern ?st (rng ?w1)")
    case (Pair r g)
    show ?thesis
    proof (cases r)
      case (Inl e)
      with Pair have ta: "time_axes lib len (number (self w)) time_pattern ?st (rng ?w1) = (Inl e, g)"
        by simp
      from time_axes_error [OF ta] obtain m where "e = ValueError m" ..
      with ta show ?thesis
        by (simp add: from_param_def)
    next
      case (Inr cols)
      with Pair have ta: "time_axes lib len (number (self w)) time_pattern ?st (rng ?w1) = (Inr cols, g)"
        by simp
      with assms show ?thesis
        by (simp add: from_param_def param_values_def)
    qed
  qed
qed

theorem from_param_phaseran_raises_witness:
  "method_name (self (start (builder ''phaseran'' 2 None) 0)) = Some ''phaseran''
   \<and> (\<exists>m. fst (from_param counter_lib (Some [1, 2]) 3 ''even'' None
                (start (builder ''phaseran'' 2 None) 0)) = Inl (ValueError m))
   \<and> series_list (self (snd (from_param counter_lib (Some [1, 2]) 3 ''even'' None
        (start (builder ''phaseran'' 2 None) 0)))) = []"
proof -
  have h: "method_name (self (start (builder ''phaseran'' 2 None) 0)) = Some ''phaseran''"
    by (simp add: ex_defs)
  from from_param_phaseran_raises [OF h, of counter_lib "Some [1, 2]" 3 "''even''" None] h
  show ?thesis
    by (auto simp: start_def builder_def)
qed



text \<open>
  C5. The claim, as stated for every call with an AR method and fewer than two
  parameters, fails where the time axes cannot be built: the unknown pattern \<open>bogus\<close>
  raises ValueError before the parameter count is looked at, and no warning is emitted.
\<close>

theorem from_param_ar_defaults_counterexample:
  "fst (from_param counter_lib (Some [3]) 50 ''bogus'' None (start (builder ''ar1sim'' 2 None) 0))
     = Inl (ValueError (Unknown_time_pattern ''bogus''))
   \<and> warnings (snd (from_param counter_lib (Some [3]) 50 ''bogus'' None
        (start (builder ''ar1sim'' 2 None) 0))) = []"
  by (simp add: fp_defs ex_defs)

text \<open>
  C5, amended. For every call with method \<open>ar1sim\<close> or \<open>uar1\<close> and fewer than two
  parameters whose time axes are built (columns \<open>cols\<close>), the call emits the warning,
  runs the simulator on those axes with \<open>tau = 5\<close> and \<open>sigma_2 = 0.5\<close>, and goes on to
  create the series list from that simulation.
\<close>

theorem from_param_ar_defaults:
  assumes ar: "method_name (self w) = Some ''ar1sim'' \<or> method_name (self w) = Some ''uar1''"
    and p: "p = (case param0 of Some q \<Rightarrow> q | None \<Rightarrow> [])"
    and short: "length p < 2"
    and ta: "time_axes lib len (number (self w)) time_pattern
               (case settings0 of None \<Rightarrow> no_settings | Some s \<Rightarrow> s)
               (rng (seed_generator lib w)) = (Inr cols, g)"
  shows "from_param lib param0 len time_pattern settings0 w =
           (case uar1_sim lib (Mat cols) 5 0.5 g of
              (y_surr, g') \<Rightarrow>
                create_series_list cols y_surr
                  ((seed_generator lib w)\<lparr>warnings := warnings w @ [AR1_defaults_used (length p)],
                      rng := g'\<rparr>))
         \<and> warnings (snd (from_param lib param0 len time_pattern settings0 w))
             = warnings w @ [AR1_defaults_used (length p)]"
proof -
  have eq: "from_param lib param0 len time_pattern settings0 w =
           (case uar1_sim lib (Mat cols) 5 0.5 g of
              (y_surr, g') \<Rightarrow>
                create_series_list cols y_surr
                  ((seed_generator lib w)\<lparr>warnings := warnings w @ [AR1_defaults_used (length p)],
                      rng := g'\<rparr>))"
    using ar short ta unfolding p
    by (auto simp: from_param_def param_values_def split: prod.splits)
  show ?thesis
    unfolding eq by (simp add: create_series_list_warnings split: prod.splits)
qed

theorem from_param_ar_defaults_witness:
  "warnings (snd (from_param counter_lib (Some [3]) 3 ''even'' None
        (start (builder ''ar1sim'' 2 (Some 7)) 0))) = [AR1_defaults_used 1]
   \<and> fst (from_param counter_lib (Some [3]) 3 ''even'' None
        (start (builder ''ar1sim'' 2 (Some 7)) 0)) = Inr ()
   \<and> map s_value (series_list (self (snd (from_param counter_lib (Some [3]) 3 ''even'' None
        (start (builder ''ar1sim'' 2 (Some 7)) 0)))))
       = [Vec [5 * 1 + 0.5 + 7, 5 * 2 + 0.5 + 7, 5 * 3 + 0.5 + 7],
          Vec [5 * 1 + 0.5 + 7, 5 * 2 + 0.5 + 7, 5 * 3 + 0.5 + 7]]"
proof -
  let ?w = "start (builder ''ar1sim'' 2 (Some 7)) 0"
  let ?R = "from_param counter_lib (Some [3]) 3 ''even'' None ?w"
  have ar: "method_name (self ?w) = Some ''ar1sim'' \<or> method_name (self ?w) = Some ''uar1''"
    by (simp add: ex_defs)
  have p: "[3] = (case Some [3::real] of Some q \<Rightarrow> q | None \<Rightarrow> [])" by simp
  have short: "length [3::real] < 2" by simp
  have ta: "time_axes counter_lib 3 (number (self ?w)) ''even''
              (case None of None \<Rightarrow> no_settings | Some s \<Rightarrow> s)
              (rng (seed_generator counter_lib ?w)) = (Inr [[1, 2, 3], [1, 2, 3]], 7)"
    by (simp add: time_axes_def seed_generator_def cumsum_def ex_defs numeral_2_eq_2
          numeral_3_eq_3 Let_def)
  have warned: "warnings (snd ?R) = [AR1_defaults_used 1]"
    using from_param_ar_defaults [OF ar p short ta, THEN conjunct2] by (simp add: start_def)
  have rest: "fst ?R = Inr () \<and> map s_value (series_list (self (snd ?R)))
       = [Vec [5 * 1 + 0.5 + 7, 5 * 2 + 0.5 + 7, 5 * 3 + 0.5 + 7],
          Vec [5 * 1 + 0.5 + 7, 5 * 2 + 0.5 + 7, 5 * 3 + 0.5 + 7]]"
    by (simp add: fp_defs ex_defs numeral_2_eq_2 numeral_3_eq_3 Let_def)
  from warned rest show ?thesis by blast
qed



section \<open>from_series\<close>

text \<open>
  C6. For a successful \<open>from_series\<close> call on a target with \<open>L\<close> time points and
  \<open>number = N\<close>: if \<open>N > 1\<close> and the sampling routine returned an \<open>L\<close> by \<open>N\<close> matrix,
  \<open>series_list\<close> holds exactly \<open>N\<close> series, each with \<open>L\<close> time points and \<open>L\<close> values,
  labelled with the target's label followed by \<open>" surr #1"\<close> to \<open>" surr #N"\<close> in order;
  if \<open>N = 1\<close> it holds one series labelled with the target's label followed by
  \<open>" surr"\<close>.
\<close>

theorem from_series_series_list:
  assumes ok: "from_series lib (Series_obj target) w = (Inr (), w')"
    and N: "N = number (self w)"
    and L: "L = length (s_time target)"
    and shape: "1 < N \<longrightarrow> returns_matrix L N (fst (surrogate_values lib target w))"
  shows "(1 < N \<longrightarrow>
            length (series_list (self w')) = N
          \<and> (\<forall>ts \<in> set (series_list (self w')).
                length (s_time ts) = L \<and> (\<exists>v. s_value ts = Vec v \<and> length v = L))
          \<and> map s_label (series_list (self w'))
              = map (\<lambda>i. Some (str_or_empty (s_label target) @ '' surr #'' @ str_nat i)) [1..<Suc N])
       \<and> (N = 1 \<longrightarrow>
            (\<exists>ts. series_list (self w') = [ts]
                \<and> s_label ts = Some (str_or_empty (s_label target) @ '' surr'')))"
proof -
  obtain r w1 where sv: "surrogate_values lib target w = (r, w1)"
    by (cases "surrogate_values lib target w")
  from ok sv obtain y where r: "r = Inr y"
    by (cases r) (auto simp: from_series_def)
  have n1: "number (self w1) = N"
    using surrogate_values_number [of lib target w] sv N by simp
  have many: "length (series_list (self w')) = N
          \<and> (\<forall>ts \<in> set (series_list (self w')).
                length (s_time ts) = L \<and> (\<exists>v. s_value ts = Vec v \<and> length v = L))
          \<and> map s_label (series_list (self w'))
              = map (\<lambda>i. Some (str_or_empty (s_label target) @ '' surr #'' @ str_nat i)) [1..<Suc N]"
    if big: "1 < N"
  proof -
    from shape big sv r have "is_matrix L N y"
      by (simp add: returns_matrix_def)
    then obtain cs
      where y: "y = Mat cs" and len: "length cs = N" and col: "\<forall>c \<in> set cs. length c = L"
      by (rule is_matrix_cases)
    let ?f = "\<lambda>(i, y). target\<lparr>s_value := y,
                s_label := Some ((str_or_empty (s_label target) @ '' surr #'') @ str_nat (i + 1))\<rparr>"
    from ok sv r y n1 big
    have sl: "series_list (self w') = map ?f (enumerate 0 (map Vec cs))"
      by (auto simp: from_series_def)
    have "length (series_list (self w')) = N"
      using sl len by simp
    moreover have "\<forall>ts \<in> set (series_list (self w')).
                length (s_time ts) = L \<and> (\<exists>v. s_value ts = Vec v \<and> length v = L)"
      unfolding sl using col L by (auto simp: in_set_enumerate_eq)
    moreover have "map s_label (series_list (self w'))
              = map (\<lambda>i. Some (str_or_empty (s_label target) @ '' surr #'' @ str_nat i)) [1..<Suc N]"
      unfolding sl labels_enumerate using len by simp
    ultimately show ?thesis by blast
  qed
  have one: "\<exists>ts. series_list (self w') = [ts]
                \<and> s_label ts = Some (str_or_empty (s_label target) @ '' surr'')"
    if "N = 1"
    using ok sv r n1 that by (auto simp: from_series_def)
  from many one show ?thesis by blast
qed

theorem from_series_series_list_witness:
  "fst (from_series counter_lib (Series_obj soi) (start (builder ''ar1sim'' 3 None) 0)) = Inr ()
   \<and> map s_label (series_list (self (snd
        (from_series counter_lib (Series_obj soi) (start (builder ''ar1sim'' 3 None) 0)))))
       = [Some ''SOI surr #1'', Some ''SOI surr #2'', Some ''SOI surr #3'']
   \<and> list_all (\<lambda>ts. length (s_time ts) = 3)
        (series_list (self (snd
          (from_series counter_lib (Series_obj soi) (start (builder ''ar1sim'' 3 None) 0)))))
   \<and> fst (from_series counter_lib (Series_obj soi) (start (builder ''uar1'' 1 None) 0)) = Inr ()
   \<and> map s_label (series_list (self (snd
        (from_series counter_lib (Series_obj soi) (start (builder ''uar1'' 1 None) 0)))))
       = [Some ''SOI surr'']"
proof -
  let ?w3 = "start (builder ''ar1sim'' 3 None) 0"
  let ?w1 = "start (builder ''uar1'' 1 None) 0"
  let ?R3 = "from_series counter_lib (Series_obj soi) ?w3"
  let ?R1 = "from_series counter_lib (Series_obj soi) ?w1"
  have ok3: "fst ?R3 = Inr ()"
    by (simp add: fs_defs ex_defs numeral_3_eq_3)
  have ok1: "fst ?R1 = Inr ()"
    by (simp add: fs_defs ex_defs)
  have h3: "?R3 = (Inr (), snd ?R3)" using ok3 by (simp add: prod_eq_iff)
  have h1: "?R1 = (Inr (), snd ?R1)" using ok1 by (simp add: prod_eq_iff)
  have n3: "3 = number (self ?w3)" by (simp add: ex_defs)
  have n1: "1 = number (self ?w1)" by (simp add: ex_defs)
  have l: "3 = length (s_time soi)" by (simp add: soi_def)
  have s3: "1 < (3::nat) \<longrightarrow> returns_matrix 3 3 (fst (surrogate_values counter_lib soi ?w3))"
    by (simp add: returns_matrix_def fs_defs ex_defs numeral_3_eq_3)
  have s1: "1 < (1::nat) \<longrightarrow> returns_matrix 3 1 (fst (surrogate_values counter_lib soi ?w1))"
    by simp
  have str: "str_nat (Suc 0) = ''1''" "str_nat 2 = ''2''" "str_nat 3 = ''3''"
    by (simp_all add: str_nat.simps digit_def)
  have lbl: "str_or_empty (s_label soi) = ''SOI''" by (simp add: soi_def str_or_empty_def)
  have up: "[Suc 0..<4] = [Suc 0, 2, 3]" by (simp add: upt_conv_Cons)
  from from_series_series_list [OF h3 n3 l s3] have
    "map s_label (series_list (self (snd ?R3)))
       = [Some ''SOI surr #1'', Some ''SOI surr #2'', Some ''SOI surr #3'']"
    "list_all (\<lambda>ts. length (s_time ts) = 3) (series_list (self (snd ?R3)))"
    by (simp_all add: str lbl up list_all_iff)
  moreover from from_series_series_list [OF h1 n1 l s1] have
    "map s_label (series_list (self (snd ?R1))) = [Some ''SOI surr'']"
    by (auto simp: lbl)
  ultimately show ?thesis using ok3 ok1 by blast
qed

text \<open>
  The seed in \<open>from_param\<close>: with a seed set, the outcome does not depend on the state the
  process-wide generator was in before the call.
\<close>

lemma from_param_seeded:
  assumes "seed (self w) = Some sd"
  shows "from_param lib param0 len tp settings0 (w\<lparr>rng := g\<rparr>)
           = from_param lib param0 len tp settings0 w"
  using assms by (simp add: from_param_def seed_generator_def)

text \<open>
  The seed in \<open>from_series\<close>: the outcome is the same whatever the seed is, because the
  generator built from it is dropped.
\<close>

lemma from_series_rng_not_seeded:
  "from_series lib target (w\<lparr>self := (self w)\<lparr>seed := sd\<rparr>\<rparr>)
     = (case from_series lib target w of
          (r, w') \<Rightarrow> (r, w'\<lparr>self := (self w')\<lparr>seed := sd\<rparr>\<rparr>))"
  by (cases target)
     (auto simp: from_series_def surrogate_values_def Let_def split: prod.splits sum.splits)

text \<open>
  C2. The claim asks that \<open>from_series\<close> seeds the generator, so that two calls with the
  same seed, method and target give the same values. The code calls
  \<open>np.random.default_rng(self.seed)\<close> and drops the generator it returns; the
  process-wide generator is not reseeded. Two successive calls on a builder with seed 42
  draw from successive generator states and give different values.
\<close>

theorem from_series_same_seed_differs:
  "fst (from_series counter_lib (Series_obj soi) (start (builder ''ar1sim'' 2 (Some 42)) 0)) = Inr ()
   \<and> map s_value (series_list (self (snd
        (from_series counter_lib (Series_obj soi) (start (builder ''ar1sim'' 2 (Some 42)) 0)))))
       = [Vec [1, 2, 4], Vec [1, 2, 4]]
   \<and> fst (from_series counter_lib (Series_obj soi)
        (snd (from_series counter_lib (Series_obj soi) (start (builder ''ar1sim'' 2 (Some 42)) 0))))
       = Inr ()
   \<and> map s_value (series_list (self (snd
        (from_series counter_lib (Series_obj soi)
          (snd (from_series counter_lib (Series_obj soi)
                 (start (builder ''ar1sim'' 2 (Some 42)) 0)))))))
       = [Vec [2, 3, 5], Vec [2, 3, 5]]"
  by (simp add: fs_defs ex_defs numeral_2_eq_2)

end
